theory Spec2Isabelle
  imports Main
begin

section \<open>Weekday and clock strings of the date library\<close>

text \<open>
  AbstractBusinessHour.ts reads and prints times with the date library's patterns
  \<^verbatim>\<open>dddd\<close> (English weekday name), \<^verbatim>\<open>HH:mm\<close> (24 hour clock) and
  \<^verbatim>\<open>dddd:HH:mm\<close>. A string that carries only a weekday and a clock time is placed
  by the library in the current week, which starts on Sunday. A valid moment is
  therefore modelled by the number of minutes between Sunday 00:00 UTC of the current
  week and the instant (an \<open>int\<close>: a conversion between zones may leave the week on
  either side); a civil time is the same count on the clock of its zone; \<open>None\<close> is the
  library's invalid moment.

  The library reads a string in its forgiving mode: for each token of the pattern in turn
  it takes the first match in what is left of the string and skips what precedes it.
  \<^verbatim>\<open>dddd\<close> takes the first word (letters, apostrophes and the characters from U+00A0
  on, after any digits that touch them) and accepts it when it begins, in either case, with
  the two letters of a weekday; each colon of the pattern skips to after the next colon, if
  there is one; \<^verbatim>\<open>HH\<close> and \<^verbatim>\<open>mm\<close> take the next one or two digits, and count as
  zero when there are none. More than 24 hours, more than 59 minutes, and 24 hours with
  minutes give the invalid moment; 24:00 is the start of the next day. A string with no
  word at all takes today's date in the library: no window whose day is a name reaches that
  case, which is the invalid moment here.
\<close>

type_synonym moment = "int option"

datatype pattern = DDDD | HHmm | DDDD_HHmm

definition weekdays :: "string list" where
  "weekdays = [''Sunday'', ''Monday'', ''Tuesday'', ''Wednesday'', ''Thursday'',
               ''Friday'', ''Saturday'']"

definition weekdaysMin :: "string list" where
  "weekdaysMin = [''su'', ''mo'', ''tu'', ''we'', ''th'', ''fr'', ''sa'']"

definition digits :: string where
  "digits = ''0123456789''"

fun index_of :: "'a \<Rightarrow> 'a list \<Rightarrow> nat option" where
  "index_of x [] = None"
| "index_of x (y # ys) = (if x = y then Some 0 else map_option Suc (index_of x ys))"

definition two_digits :: "nat \<Rightarrow> string" where
  "two_digits n = [digits ! (n div 10 mod 10), digits ! (n mod 10)]"

definition format_dddd :: "int \<Rightarrow> string" where
  "format_dddd t = weekdays ! nat (t div 1440 mod 7)"

definition format_HHmm :: "int \<Rightarrow> string" where
  "format_HHmm t = two_digits (nat (t mod 1440 div 60)) @ '':'' @ two_digits (nat (t mod 60))"

fun format :: "moment \<Rightarrow> pattern \<Rightarrow> string" where
  "format None p = ''Invalid date''"
| "format (Some t) DDDD = format_dddd t"
| "format (Some t) HHmm = format_HHmm t"
| "format (Some t) DDDD_HHmm = format_dddd t @ '':'' @ format_HHmm t"

definition is_digit :: "char \<Rightarrow> bool" where
  "is_digit c = (index_of c digits \<noteq> None)"

definition digit_value :: "char \<Rightarrow> nat" where
  "digit_value c = (case index_of c digits of None \<Rightarrow> 0 | Some d \<Rightarrow> d)"

definition is_word_char :: "char \<Rightarrow> bool" where
  "is_word_char c =
     (let n = (of_char c :: nat)
      in (65 \<le> n \<and> n \<le> 90) \<or> (97 \<le> n \<and> n \<le> 122) \<or> n = 39 \<or> 160 \<le> n)"

definition lower :: "char \<Rightarrow> char" where
  "lower c = (let n = (of_char c :: nat) in if 65 \<le> n \<and> n \<le> 90 then char_of (n + 32) else c)"

text \<open>The weekday of a word: the word begins with the two letters of the weekday.\<close>

definition weekdaysParse :: "string \<Rightarrow> nat option" where
  "weekdaysParse w = index_of (map lower (take 2 w)) weekdaysMin"

text \<open>A colon of the pattern: what follows the next colon, or the string itself.\<close>

definition after_colon :: "string \<Rightarrow> string" where
  "after_colon s = (case dropWhile (\<lambda>c. c \<noteq> CHR '':'') s of [] \<Rightarrow> s | c # r \<Rightarrow> r)"

fun one_or_two_digits :: "string \<Rightarrow> nat option \<times> string" where
  "one_or_two_digits [] = (None, [])"
| "one_or_two_digits [a] = (Some (digit_value a), [])"
| "one_or_two_digits (a # b # r) =
     (if is_digit b then (Some (10 * digit_value a + digit_value b), r)
      else (Some (digit_value a), b # r))"

text \<open>\<^verbatim>\<open>HH\<close> and \<^verbatim>\<open>mm\<close>: the next one or two digits and what follows them.\<close>

definition read_number :: "string \<Rightarrow> nat option \<times> string" where
  "read_number s =
     (case dropWhile (\<lambda>c. \<not> is_digit c) s of
        [] \<Rightarrow> (None, s)
      | a # r \<Rightarrow> one_or_two_digits (a # r))"

definition number_or_zero :: "nat option \<Rightarrow> nat" where
  "number_or_zero n = (case n of None \<Rightarrow> 0 | Some k \<Rightarrow> k)"

text \<open>The civil time of weekday \<open>i\<close> at \<open>h\<close> hours and \<open>m\<close> minutes, when there is one.\<close>

definition clock :: "nat \<Rightarrow> nat \<Rightarrow> nat \<Rightarrow> moment" where
  "clock i h m =
     (if 24 < h \<or> 59 < m \<or> (h = 24 \<and> m \<noteq> 0) then None
      else Some (int (i * 1440 + h * 60 + m)))"

text \<open>The tokens \<^verbatim>\<open>:HH:mm\<close> on what follows the weekday.\<close>

definition parse_HHmm :: "nat \<Rightarrow> string \<Rightarrow> moment" where
  "parse_HHmm i s =
     (case read_number (after_colon s) of
        (h, r) \<Rightarrow>
          (case read_number (after_colon r) of
             (m, r') \<Rightarrow> clock i (number_or_zero h) (number_or_zero m)))"

text \<open>\<^verbatim>\<open>moment(s, 'dddd:HH:mm')\<close>: the weekday of the current week at the clock time.\<close>

definition parse_dddd_HHmm :: "string \<Rightarrow> moment" where
  "parse_dddd_HHmm s =
     (let skipped = takeWhile (\<lambda>c. \<not> is_word_char c) s;
          found = dropWhile (\<lambda>c. \<not> is_word_char c) s
      in if found = [] \<or> (skipped \<noteq> [] \<and> is_digit (last skipped)) then None
         else (case weekdaysParse (takeWhile is_word_char found) of
                 None \<Rightarrow> None
               | Some i \<Rightarrow> parse_HHmm i (dropWhile is_word_char found)))"

text \<open>\<^verbatim>\<open>isBefore\<close> and \<^verbatim>\<open>isSame\<close> are false as soon as one side is invalid.\<close>

fun isBefore :: "moment \<Rightarrow> moment \<Rightarrow> bool" where
  "isBefore (Some a) (Some b) = (a < b)"
| "isBefore _ _ = False"

fun isSame :: "moment \<Rightarrow> moment \<Rightarrow> bool" where
  "isSame (Some a) (Some b) = (a = b)"
| "isSame _ _ = False"

section \<open>The ambient clock and zone data\<close>

text \<open>
  What the code reads from outside. The zone database: \<open>zoneOffset z l\<close> is the UTC
  offset, in minutes east of Greenwich, that zone \<open>z\<close> gives the civil time \<open>l\<close> of the
  current week, and \<open>zoneOffsetNow z\<close> the offset of \<open>z\<close> at the present instant. The
  server's own zone, in which \<^verbatim>\<open>moment(s, f)\<close> reads and \<^verbatim>\<open>format\<close> prints:
  \<open>serverZoneOffset l\<close> is the offset it gives the civil time \<open>l\<close> when reading, and
  \<open>serverZoneOffsetAt t\<close> its offset at the instant \<open>t\<close> when printing; the two differ
  in a week in which the zone changes its offset. The server's offset at the present
  instant, \<^verbatim>\<open>moment().utcOffset()\<close>: the offsets in civil use are whole quarter hours
  and it is carried as a count of quarter hours, for which the division by 60 and the
  addition of fractional hours in the source are exact.
\<close>

record env =
  zoneOffset :: "string \<Rightarrow> int \<Rightarrow> int"
  zoneOffsetNow :: "string \<Rightarrow> int"
  serverZoneOffset :: "int \<Rightarrow> int"
  serverZoneOffsetAt :: "int \<Rightarrow> int"
  serverOffsetQuarters :: int

definition utcOffset :: "env \<Rightarrow> int" where
  "utcOffset e = 15 * serverOffsetQuarters e"

text \<open>\<^verbatim>\<open>moment.tz(s, 'dddd:HH:mm', zone).utc()\<close>: the civil time of the zone, as an instant.\<close>

definition moment_tz :: "env \<Rightarrow> string \<Rightarrow> string \<Rightarrow> moment" where
  "moment_tz e s z = map_option (\<lambda>l. l - zoneOffset e z l) (parse_dddd_HHmm s)"

text \<open>\<^verbatim>\<open>moment(s, 'dddd:HH:mm')\<close>: the civil time of the server's zone, as an instant.\<close>

definition moment_local :: "env \<Rightarrow> string \<Rightarrow> moment" where
  "moment_local e s = map_option (\<lambda>l. l - serverZoneOffset e l) (parse_dddd_HHmm s)"

text \<open>\<^verbatim>\<open>m.add(utcOffset / 60, 'hours')\<close>: hours are added on the time line; in minutes.\<close>

definition add_offset_hours :: "env \<Rightarrow> moment \<Rightarrow> moment" where
  "add_offset_hours e m = map_option (\<lambda>t. t + utcOffset e) m"

text \<open>\<^verbatim>\<open>m.format(p)\<close> of a moment of the server's zone: the civil time there is printed.\<close>

definition format_local :: "env \<Rightarrow> moment \<Rightarrow> pattern \<Rightarrow> string" where
  "format_local e m p = format (map_option (\<lambda>t. t + serverZoneOffsetAt e t) m) p"

definition formatDayOfTheWeekFromServerTimezoneAndUtcHour :: "env \<Rightarrow> moment \<Rightarrow> pattern \<Rightarrow> string" where
  "formatDayOfTheWeekFromServerTimezoneAndUtcHour e utc p =
     format_local e (add_offset_hours e (moment_local e (format utc DDDD_HHmm))) p"

section \<open>Work hours and their conversion\<close>

record day_time =
  dayOfWeek :: string
  time :: string

text \<open>
  \<open>hour.start\<close> and \<open>hour.finish\<close> arrive as the strings the operator typed and are
  replaced in place by the object \<^verbatim>\<open>{time, utc, cron}\<close>, whose \<open>time\<close> is the value
  that was there before.
\<close>

datatype timeval = Raw string | Composite (localTime: timeval) (utc: day_time) (cron: day_time)

fun to_string :: "timeval \<Rightarrow> string" where
  "to_string (Raw s) = s"
| "to_string (Composite t u c) = ''[object Object]''"

record work_hour =
  day :: string
  start :: timeval
  finish :: timeval
  "open" :: bool

datatype error = Finish_time_before_start_time | Finish_time_equals_start_time

fun error_message :: "error \<Rightarrow> string" where
  "error_message Finish_time_before_start_time = ''error-business-hour-finish-time-before-start-time''"
| "error_message Finish_time_equals_start_time = ''error-business-hour-finish-time-equals-start-time''"

definition startUtc :: "env \<Rightarrow> string \<Rightarrow> work_hour \<Rightarrow> moment" where
  "startUtc e z hour = moment_tz e (day hour @ '':'' @ to_string (start hour)) z"

definition finishUtc :: "env \<Rightarrow> string \<Rightarrow> work_hour \<Rightarrow> moment" where
  "finishUtc e z hour = moment_tz e (day hour @ '':'' @ to_string (finish hour)) z"

definition composite :: "env \<Rightarrow> timeval \<Rightarrow> moment \<Rightarrow> timeval" where
  "composite e t m =
     Composite t
       \<lparr>dayOfWeek = format m DDDD, time = format m HHmm\<rparr>
       \<lparr>dayOfWeek = formatDayOfTheWeekFromServerTimezoneAndUtcHour e m DDDD,
        time = formatDayOfTheWeekFromServerTimezoneAndUtcHour e m HHmm\<rparr>"

text \<open>The two assignments \<open>hour.start = {...}\<close> and \<open>hour.finish = {...}\<close>.\<close>

definition normalized_hour :: "env \<Rightarrow> string \<Rightarrow> work_hour \<Rightarrow> work_hour" where
  "normalized_hour e z hour =
     hour\<lparr>start := composite e (start hour) (startUtc e z hour),
          finish := composite e (finish hour) (finishUtc e z hour)\<rparr>"

text \<open>The body of the \<^verbatim>\<open>forEach\<close> callback of \<open>convertWorkHours\<close>, for one window.\<close>

definition convertHour :: "env \<Rightarrow> string \<Rightarrow> work_hour \<Rightarrow> error + work_hour" where
  "convertHour e z hour =
     (if open hour \<and> isBefore (finishUtc e z hour) (startUtc e z hour) then
        Inl Finish_time_before_start_time
      else if open hour \<and> isSame (startUtc e z hour) (finishUtc e z hour) then
        Inl Finish_time_equals_start_time
      else
        Inr (normalized_hour e z hour))"

text \<open>
  The \<^verbatim>\<open>forEach\<close> loop over the caller's array. The windows are objects of the caller,
  changed in place, so the loop returns the array as it stands when the loop ends:
  by completion (\<open>None\<close>) or by the exception of the first failing window.
\<close>

fun forEach_convertHour :: "env \<Rightarrow> string \<Rightarrow> work_hour list \<Rightarrow> error option \<times> work_hour list" where
  "forEach_convertHour e z [] = (None, [])"
| "forEach_convertHour e z (hour # hours) =
     (case convertHour e z hour of
        Inl err \<Rightarrow> (Some err, hour # hours)
      | Inr hour' \<Rightarrow>
          (case forEach_convertHour e z hours of (r, hours') \<Rightarrow> (r, hour' # hours')))"

record timezone =
  tz_name :: string
  tz_utc :: string

record business_hour =
  bh_id :: "string option"
  active :: bool
  isDefault :: bool
  timezone :: timezone
  workHours :: "work_hour list"

definition convertWorkHours :: "env \<Rightarrow> business_hour \<Rightarrow> error option \<times> business_hour" where
  "convertWorkHours e businessHourData =
     (case forEach_convertHour e (tz_name (timezone businessHourData)) (workHours businessHourData) of
        (r, hours') \<Rightarrow> (r, businessHourData\<lparr>workHours := hours'\<rparr>))"

text \<open>
  The condition under which a window is refused, in the words of the specification:
  both instants exist and the finish instant is not after the start instant.
\<close>

definition finish_not_after_start :: "env \<Rightarrow> string \<Rightarrow> work_hour \<Rightarrow> bool" where
  "finish_not_after_start e z hour =
     (case (startUtc e z hour, finishUtc e z hour) of
        (Some s, Some f) \<Rightarrow> f \<le> s
      | _ \<Rightarrow> False)"

definition invalid_window :: "env \<Rightarrow> string \<Rightarrow> work_hour \<Rightarrow> bool" where
  "invalid_window e z hour = (open hour \<and> finish_not_after_start e z hour)"

text \<open>
  \<^verbatim>\<open>moment.utc(dayOfWeek + ':' + time, 'dddd:HH:mm')\<close>: the instant that a stored
  pair of weekday and time denotes, read back in UTC.
\<close>

definition utc_instant_of :: "day_time \<Rightarrow> moment" where
  "utc_instant_of d = parse_dddd_HHmm (dayOfWeek d @ '':'' @ time d)"

section \<open>Saving a business hour\<close>

text \<open>
  Modelled from the spec: the collection behind \<open>BusinessHourRepository\<close> (the model
  class LivechatBusinessHours is not among the sources). The collection is the list of its
  documents. \<open>updateOne\<close> with the filter \<^verbatim>\<open>{_id}\<close> and \<^verbatim>\<open>$set\<close> of the whole
  draft overwrites the first document with that identity and touches nothing when there
  is none; \<open>insertOne\<close> appends the draft and returns its identity, \<open>newId\<close> being
  the one the store generates when the draft carries none.
\<close>

fun updateOne :: "string \<Rightarrow> business_hour \<Rightarrow> business_hour list \<Rightarrow> business_hour list" where
  "updateOne i d [] = []"
| "updateOne i d (x # xs) = (if bh_id x = Some i then d # xs else x # updateOne i d xs)"

definition insertOne :: "string \<Rightarrow> business_hour \<Rightarrow> business_hour list \<Rightarrow> string \<times> business_hour list" where
  "insertOne newId d docs =
     (case bh_id d of
        Some i \<Rightarrow> (i, docs @ [d])
      | None \<Rightarrow> (newId, docs @ [d\<lparr>bh_id := Some newId\<rparr>]))"

text \<open>JavaScript truthiness of \<open>businessHourData._id\<close>: present and not the empty string.\<close>

fun truthy :: "string option \<Rightarrow> bool" where
  "truthy None = False"
| "truthy (Some s) = (s \<noteq> [])"

text \<open>
  \<open>baseSaveBusinessHour\<close> returns the identity or the exception, and the collection
  as it is afterwards. \<open>active\<close> is a boolean here, so \<^verbatim>\<open>Boolean(active)\<close> is \<open>active\<close>.
\<close>

definition baseSaveBusinessHour ::
    "env \<Rightarrow> string \<Rightarrow> business_hour list \<Rightarrow> business_hour \<Rightarrow> (error + string) \<times> business_hour list" where
  "baseSaveBusinessHour e newId docs businessHourData =
     (case convertWorkHours e (businessHourData\<lparr>active := active businessHourData\<rparr>) of
        (Some err, d) \<Rightarrow> (Inl err, docs)
      | (None, d) \<Rightarrow>
          if truthy (bh_id d) then (Inr (the (bh_id d)), updateOne (the (bh_id d)) d docs)
          else (case insertOne newId d docs of (insertedId, docs') \<Rightarrow> (Inr insertedId, docs')))"

section \<open>The offset of a timezone as a string\<close>

text \<open>
  \<^verbatim>\<open>String(n)\<close> of a non-negative whole number, and of the number of hours in
  \<open>q\<close> quarter hours (a whole number of quarters is printed by JavaScript with its
  exact decimals).
\<close>

fun string_of_nat :: "nat \<Rightarrow> string" where
  "string_of_nat n =
     (if n < 10 then [digits ! n] else string_of_nat (n div 10) @ [digits ! (n mod 10)])"

definition String_hours :: "int \<Rightarrow> string" where
  "String_hours q =
     (if q < 0 then ''-'' else []) @ string_of_nat (nat \<bar>q\<bar> div 4) @
     (if nat \<bar>q\<bar> mod 4 = 0 then []
      else if nat \<bar>q\<bar> mod 4 = 1 then ''.25''
      else if nat \<bar>q\<bar> mod 4 = 2 then ''.5''
      else ''.75'')"

text \<open>\<^verbatim>\<open>format('Z')\<close> of a moment whose offset is \<open>m\<close> minutes.\<close>

definition format_Z :: "int \<Rightarrow> string" where
  "format_Z m =
     (if m < 0 then ''-'' else ''+'') @ two_digits (nat (\<bar>m\<bar> div 60)) @ '':'' @
     two_digits (nat (\<bar>m\<bar> mod 60))"

text \<open>\<open>!timezone\<close> holds for an absent argument and for the empty string.\<close>

definition getUTCFromTimezone :: "env \<Rightarrow> string option \<Rightarrow> string" where
  "getUTCFromTimezone e tz =
     (if \<not> truthy tz then String_hours (serverOffsetQuarters e)
      else format_Z (zoneOffsetNow e (the tz)))"

section \<open>Agents\<close>

datatype ILivechatAgentStatus = AVAILABLE | NOT_AVAILABLE

text \<open>
  Modelled from the spec: the agent record of \<open>UsersRepository\<close> (the model class
  Users is not among the sources), with the facets the specification names: the set of
  assigned schedules, the live status, and the marker of a status set by the engine; and
  \<open>statusDefault\<close>, the status the agent chose manually, which the source reads.
\<close>

record agent =
  statusLivechat :: "ILivechatAgentStatus option"
  statusDefault :: "string option"
  livechatStatusSystemModified :: bool
  businessHours :: "string list"

type_synonym users = "string \<rightharpoonup> agent"

text \<open>
  Modelled from the spec: \<open>Users.setLivechatStatus\<close> writes the live status of the
  agent, if there is such an agent.
\<close>

definition setLivechatStatus :: "users \<Rightarrow> string \<Rightarrow> ILivechatAgentStatus \<Rightarrow> users" where
  "setLivechatStatus us agentId status =
     (case us agentId of
        None \<Rightarrow> us
      | Some a \<Rightarrow> us(agentId \<mapsto> a\<lparr>statusLivechat := Some status\<rparr>))"

text \<open>
  The filter and the extra fields that \<open>changeAgentActiveStatus\<close> passes:
  \<^verbatim>\<open>{livechatStatusSystemModified: true, statusDefault: {$ne: 'offline'}}\<close> and
  \<^verbatim>\<open>{livechatStatusSystemModified: true}\<close>.
\<close>

datatype condition = SystemModified_is bool | StatusDefault_ne string

datatype extra_field = Set_systemModified bool

fun matches :: "agent \<Rightarrow> condition \<Rightarrow> bool" where
  "matches a (SystemModified_is b) = (livechatStatusSystemModified a = b)"
| "matches a (StatusDefault_ne s) = (statusDefault a \<noteq> Some s)"

fun set_field :: "extra_field \<Rightarrow> agent \<Rightarrow> agent" where
  "set_field (Set_systemModified b) a = a\<lparr>livechatStatusSystemModified := b\<rparr>"

text \<open>
  Modelled from the spec: \<open>Users.setLivechatStatusIf\<close> is the guarded write of the
  specification: one conditional update that writes the status and the extra fields of
  the agent when the agent satisfies every condition, and nothing otherwise.
\<close>

definition setLivechatStatusIf ::
    "users \<Rightarrow> string \<Rightarrow> ILivechatAgentStatus \<Rightarrow> condition list \<Rightarrow> extra_field list \<Rightarrow> users" where
  "setLivechatStatusIf us agentId status conditions extraFields =
     (case us agentId of
        None \<Rightarrow> us
      | Some a \<Rightarrow>
          if list_all (matches a) conditions
          then us(agentId \<mapsto> fold set_field extraFields (a\<lparr>statusLivechat := Some status\<rparr>))
          else us)"

text \<open>
  Modelled from the spec: \<open>Users.addBusinessHourByAgentIds\<close> is the repository's
  \<open>assignSchedule\<close>, which the specification lists apart from \<open>setStatus\<close>: it adds
  the schedule to the assigned schedules of each of the agents and writes no other field.
\<close>

definition addBusinessHourByAgentIds :: "users \<Rightarrow> string list \<Rightarrow> string \<Rightarrow> users" where
  "addBusinessHourByAgentIds us agentIds businessHourId =
     (\<lambda>k. if k \<in> set agentIds
          then map_option
                 (\<lambda>a. a\<lparr>businessHours := List.insert businessHourId (businessHours a)\<rparr>) (us k)
          else us k)"

text \<open>
  Modelled from the spec: \<open>Users.removeBusinessHoursFromAllUsers\<close> clears the business
  hours that the engine attached to every agent and writes no other field.
\<close>

definition removeBusinessHoursFromAllUsers :: "users \<Rightarrow> users" where
  "removeBusinessHoursFromAllUsers us = (\<lambda>k. map_option (\<lambda>a. a\<lparr>businessHours := []\<rparr>) (us k))"

text \<open>
  Modelled from the spec: \<open>Users.isAgentWithinBusinessHours\<close> answers whether the agent
  is at present inside a window of one of its assigned schedules; \<open>openNow\<close> tells which
  schedules are active and inside one of their open windows at the present instant.
\<close>

definition isAgentWithinBusinessHours :: "(string \<Rightarrow> bool) \<Rightarrow> users \<Rightarrow> string \<Rightarrow> bool" where
  "isAgentWithinBusinessHours openNow us agentId =
     (case us agentId of
        None \<Rightarrow> False
      | Some a \<Rightarrow> list_ex openNow (businessHours a))"

text \<open>
  Modelled from the spec: \<open>LivechatBusinessHours.findOneDefaultBusinessHour\<close> finds the
  default schedule, and \<open>filterBusinessHoursThatMustBeOpened\<close> (of Helper, not among the
  sources) keeps the schedules that are open at present.
\<close>

definition findOneDefaultBusinessHour :: "business_hour list \<Rightarrow> business_hour option" where
  "findOneDefaultBusinessHour docs = find isDefault docs"

definition filterBusinessHoursThatMustBeOpened ::
    "(string \<Rightarrow> bool) \<Rightarrow> business_hour list \<Rightarrow> business_hour list" where
  "filterBusinessHoursThatMustBeOpened openNow bhs =
     filter (\<lambda>b. case bh_id b of None \<Rightarrow> False | Some i \<Rightarrow> openNow i) bhs"

section \<open>The behaviour of the business hours\<close>

definition onDisableBusinessHours :: "users \<Rightarrow> users" where
  "onDisableBusinessHours us = removeBusinessHoursFromAllUsers us"

definition allowAgentChangeServiceStatus :: "(string \<Rightarrow> bool) \<Rightarrow> users \<Rightarrow> string \<Rightarrow> bool" where
  "allowAgentChangeServiceStatus openNow us agentId = isAgentWithinBusinessHours openNow us agentId"

definition changeAgentActiveStatus :: "users \<Rightarrow> string \<Rightarrow> ILivechatAgentStatus \<Rightarrow> users" where
  "changeAgentActiveStatus us agentId status =
     setLivechatStatusIf us agentId status
       [SystemModified_is True, StatusDefault_ne ''offline'']
       [Set_systemModified True]"

text \<open>
  \<open>onNewAgentCreated\<close>. The debug messages of the source have no effect on the agents;
  the last of them, after \<open>addBusinessHourByAgentIds\<close>, says that the agent is set to
  the status available, and no call follows it. The identity of a stored schedule is present.
\<close>

definition onNewAgentCreated ::
    "(string \<Rightarrow> bool) \<Rightarrow> business_hour list \<Rightarrow> users \<Rightarrow> string \<Rightarrow> users" where
  "onNewAgentCreated openNow docs us agentId =
     (case findOneDefaultBusinessHour docs of
        None \<Rightarrow> us
      | Some defaultBusinessHour \<Rightarrow>
          if filterBusinessHoursThatMustBeOpened openNow [defaultBusinessHour] = []
          then setLivechatStatus us agentId NOT_AVAILABLE
          else addBusinessHourByAgentIds us [agentId] (the (bh_id defaultBusinessHour)))"

section \<open>Sample data\<close>

text \<open>
  The example of the specification: the schedule Support-EU of timezone Europe/Madrid,
  at a time of the year when Madrid is one hour east of UTC, on a server whose zone is UTC.
\<close>

definition madrid :: env where
  "madrid = \<lparr>zoneOffset = (\<lambda>z l. if z = ''Europe/Madrid'' then 60 else 0),
             zoneOffsetNow = (\<lambda>z. if z = ''Europe/Madrid'' then 60 else 0),
             serverZoneOffset = (\<lambda>l. 0),
             serverZoneOffsetAt = (\<lambda>t. 0),
             serverOffsetQuarters = 0\<rparr>"

definition monday :: "string \<Rightarrow> string \<Rightarrow> bool \<Rightarrow> work_hour" where
  "monday s f b = \<lparr>day = ''Monday'', start = Raw s, finish = Raw f, open = b\<rparr>"

definition sunday_0030 :: work_hour where
  "sunday_0030 = \<lparr>day = ''Sunday'', start = Raw ''00:30'', finish = Raw ''17:00'', open = True\<rparr>"

definition support_eu :: "work_hour list \<Rightarrow> business_hour" where
  "support_eu hs = \<lparr>bh_id = None, active = True, isDefault = False,
       timezone = \<lparr>tz_name = ''Europe/Madrid'', tz_utc = ''+01:00''\<rparr>, workHours = hs\<rparr>"


text \<open>A server two hours east of UTC, in a summer when Madrid is two hours east as well.\<close>

definition summer :: env where
  "summer = \<lparr>zoneOffset = (\<lambda>z l. 120), zoneOffsetNow = (\<lambda>z. 120),
             serverZoneOffset = (\<lambda>l. 120), serverZoneOffsetAt = (\<lambda>t. 120),
             serverOffsetQuarters = 8\<rparr>"

text \<open>
  A server in America/New_York in the week that begins with the return to standard time:
  on Sunday the civil time 02:00 (minute 120 of the week), which is 06:00 UTC (minute 360),
  becomes 01:00, and the offset goes from four to five hours west. The present instant is
  after the change, so the current offset is five hours west. The window is Sunday
  03:00 in a schedule of timezone UTC.
\<close>

definition new_york :: env where
  "new_york = \<lparr>zoneOffset = (\<lambda>z l. 0), zoneOffsetNow = (\<lambda>z. 0),
               serverZoneOffset = (\<lambda>l. if l < 120 then - 240 else - 300),
               serverZoneOffsetAt = (\<lambda>t. if t < 360 then - 240 else - 300),
               serverOffsetQuarters = - 20\<rparr>"

definition sunday_0300 :: work_hour where
  "sunday_0300 = \<lparr>day = ''Sunday'', start = Raw ''03:00'', finish = Raw ''17:00'', open = True\<rparr>"


definition new_agent :: agent where
  "new_agent = \<lparr>statusLivechat = None, statusDefault = None,
                 livechatStatusSystemModified = False, businessHours = []\<rparr>"

definition managed_agent :: agent where
  "managed_agent = \<lparr>statusLivechat = Some NOT_AVAILABLE, statusDefault = Some ''online'',
                     livechatStatusSystemModified = True, businessHours = [''default'']\<rparr>"

definition offline_agent :: agent where
  "offline_agent = \<lparr>statusLivechat = Some NOT_AVAILABLE, statusDefault = Some ''offline'',
                     livechatStatusSystemModified = True, businessHours = [''default'']\<rparr>"

definition one_agent :: "agent \<Rightarrow> users" where
  "one_agent a = Map.empty(''agent'' \<mapsto> a)"

definition always_open :: "string \<Rightarrow> bool" where
  "always_open i = True"

definition never_open :: "string \<Rightarrow> bool" where
  "never_open i = False"

section \<open>Reading back what was printed\<close>

lemma below_10:
  "(d::nat) < 10 \<Longrightarrow> d = 0 \<or> d = 1 \<or> d = 2 \<or> d = 3 \<or> d = 4 \<or> d = 5 \<or> d = 6 \<or> d = 7 \<or> d = 8 \<or> d = 9"
  by arith

lemma index_of_digits: "d < 10 \<Longrightarrow> index_of (digits ! d) digits = Some d"
  by (drule below_10) (auto simp: digits_def)

lemma digit_facts:
  assumes "d < 10"
  shows "is_digit (digits ! d)" and "digit_value (digits ! d) = d"
    and "digits ! d \<noteq> CHR '':''" and "\<not> is_word_char (digits ! d)"
proof -
  show "is_digit (digits ! d)" "digit_value (digits ! d) = d"
    using index_of_digits [OF assms] by (simp_all add: is_digit_def digit_value_def)
  show "digits ! d \<noteq> CHR '':''" "\<not> is_word_char (digits ! d)"
    using below_10 [OF assms] by (auto simp: digits_def is_word_char_def)
qed

lemma colon_facts: "\<not> is_digit (CHR '':'')" "\<not> is_word_char (CHR '':'')"
  by (simp_all add: is_digit_def digits_def is_word_char_def)

lemma parse_HHmm_two_digits:
  assumes "h < 24" and "m < 60"
  shows "parse_HHmm i ('':'' @ two_digits h @ '':'' @ two_digits m) = Some (int (i * 1440 + h * 60 + m))"
proof -
  have h: "h div 10 mod 10 < 10" "h mod 10 < 10" and m: "m div 10 mod 10 < 10" "m mod 10 < 10"
    by simp_all
  have "10 * (h div 10 mod 10) + h mod 10 = h" "10 * (m div 10 mod 10) + m mod 10 = m"
    using assms by simp_all
  then show ?thesis
    using assms digit_facts [OF h(1)] digit_facts [OF h(2)] digit_facts [OF m(1)] digit_facts [OF m(2)]
    by (simp add: parse_HHmm_def two_digits_def after_colon_def read_number_def clock_def
        number_or_zero_def colon_facts)
qed

lemma hours_below_24: "nat (t mod 1440 div 60) < 24"
  by simp

lemma minutes_below_60: "nat (t mod 60) < 60"
  by simp

lemma clock_split: "nat (t mod 1440 div 60) * 60 + nat (t mod 60) = nat (t mod 1440)"
proof -
  have "t mod 60 = t mod 1440 mod 60"
    by (simp add: mod_mod_cancel)
  moreover have "t mod 1440 div 60 * 60 + t mod 1440 mod 60 = t mod 1440"
    by simp
  ultimately have "int (nat (t mod 1440 div 60) * 60 + nat (t mod 60)) = t mod 1440"
    by simp
  then show ?thesis by linarith
qed

lemma parse_HHmm_format_HHmm:
  "parse_HHmm i ('':'' @ format_HHmm t) = Some (int (i * 1440 + nat (t mod 1440)))"
proof -
  have "parse_HHmm i ('':'' @ format_HHmm t) =
      Some (int (i * 1440 + nat (t mod 1440 div 60) * 60 + nat (t mod 60)))"
    unfolding format_HHmm_def
    by (rule parse_HHmm_two_digits) (simp_all only: hours_below_24 minutes_below_60)
  then show ?thesis
    using clock_split [of t] by (simp only: add.assoc)
qed

lemma below_7:
  "(i::nat) < 7 \<Longrightarrow> i = 0 \<or> i = 1 \<or> i = 2 \<or> i = 3 \<or> i = 4 \<or> i = 5 \<or> i = 6"
  by arith

lemma word_then_colon:
  assumes "w \<noteq> []" and "\<forall>c\<in>set w. is_word_char c"
  shows "parse_dddd_HHmm (w @ '':'' @ r) =
           (case weekdaysParse w of None \<Rightarrow> None | Some i \<Rightarrow> parse_HHmm i ('':'' @ r))"
proof -
  from assms obtain c w' where w: "w = c # w'" and c: "is_word_char c"
    by (cases w) auto
  have "takeWhile (\<lambda>c. \<not> is_word_char c) (w @ '':'' @ r) = []"
    and "dropWhile (\<lambda>c. \<not> is_word_char c) (w @ '':'' @ r) = w @ '':'' @ r"
    using c by (simp_all add: w)
  moreover have "takeWhile is_word_char (w @ '':'' @ r) = w"
    and "dropWhile is_word_char (w @ '':'' @ r) = '':'' @ r"
    using assms(2) colon_facts(2) by (simp_all add: takeWhile_append2 dropWhile_append2)
  ultimately show ?thesis
    using assms(1) by (simp add: parse_dddd_HHmm_def split: option.split)
qed

lemma weekdays_are_words:
  "\<forall>w\<in>set weekdays. w \<noteq> [] \<and> (\<forall>c\<in>set w. is_word_char c)"
  by code_simp

lemma weekdaysParse_weekdays:
  "map weekdaysParse weekdays = map Some [0..<7]"
  by code_simp

lemma weekday_word:
  assumes "i < 7"
  shows "parse_dddd_HHmm (weekdays ! i @ '':'' @ r) = parse_HHmm i ('':'' @ r)"
proof -
  have len: "length weekdays = 7"
    by (simp add: weekdays_def)
  with assms have "weekdays ! i \<in> set weekdays"
    by simp
  then have "weekdays ! i \<noteq> []" and "\<forall>c\<in>set (weekdays ! i). is_word_char c"
    using weekdays_are_words by blast+
  moreover have "weekdaysParse (weekdays ! i) = Some i"
  proof -
    have "map weekdaysParse weekdays ! i = map Some [0..<7] ! i"
      by (simp only: weekdaysParse_weekdays)
    then show ?thesis
      using assms len by simp
  qed
  ultimately show ?thesis
    using word_then_colon [of "weekdays ! i" r] by simp
qed

lemma week_split: "int (nat (t div 1440 mod 7) * 1440 + nat (t mod 1440)) = t mod 10080"
proof -
  have "t mod 10080 = 1440 * (t div 1440 mod 7) + t mod 1440"
    using mod_mult2_eq' [of t 1440 7] by simp
  then show ?thesis by simp
qed

lemma parse_format_dddd_HHmm:
  "parse_dddd_HHmm (format (Some t) DDDD_HHmm) = Some (t mod 10080)"
proof -
  have "nat (t div 1440 mod 7) < 7" by simp
  then have "parse_dddd_HHmm (weekdays ! nat (t div 1440 mod 7) @ '':'' @ format_HHmm t) =
      parse_HHmm (nat (t div 1440 mod 7)) ('':'' @ format_HHmm t)"
    by (rule weekday_word)
  then show ?thesis
    by (simp only: format.simps format_dddd_def parse_HHmm_format_HHmm week_split)
qed

section \<open>The loop over the windows\<close>


lemma convertHour_Inl_iff:
  "(\<exists>err. convertHour e z hour = Inl err) \<longleftrightarrow> invalid_window e z hour"
  by (cases "startUtc e z hour"; cases "finishUtc e z hour")
     (auto simp: convertHour_def invalid_window_def finish_not_after_start_def)

lemma convertHour_Inr:
  "\<not> invalid_window e z hour \<Longrightarrow> convertHour e z hour = Inr (normalized_hour e z hour)"
  by (cases "startUtc e z hour"; cases "finishUtc e z hour")
     (auto simp: convertHour_def invalid_window_def finish_not_after_start_def)

lemma forEach_convertHour_error_iff:
  "(\<exists>err. fst (forEach_convertHour e z hours) = Some err) \<longleftrightarrow>
   (\<exists>hour\<in>set hours. invalid_window e z hour)"
proof (induction hours)
  case Nil
  show ?case by simp
next
  case (Cons hour hours)
  show ?case
  proof (cases "invalid_window e z hour")
    case True
    then obtain err where "convertHour e z hour = Inl err"
      using convertHour_Inl_iff by blast
    with True show ?thesis by simp
  next
    case False
    then have "convertHour e z hour = Inr (normalized_hour e z hour)"
      by (rule convertHour_Inr)
    with False Cons.IH show ?thesis
      by (cases "forEach_convertHour e z hours") simp
  qed
qed


lemma forEach_convertHour_success:
  "\<forall>hour\<in>set hours. \<not> invalid_window e z hour \<Longrightarrow>
   forEach_convertHour e z hours = (None, map (normalized_hour e z) hours)"
  by (induction hours) (simp_all add: convertHour_Inr)

lemma convertWorkHours_eq:
  "convertWorkHours e d =
     (fst (forEach_convertHour e (tz_name (timezone d)) (workHours d)),
      d\<lparr>workHours := snd (forEach_convertHour e (tz_name (timezone d)) (workHours d))\<rparr>)"
  by (simp add: convertWorkHours_def case_prod_beta)

lemma baseSaveBusinessHour_error:
  "fst (convertWorkHours e d) = Some err \<Longrightarrow> baseSaveBusinessHour e newId docs d = (Inl err, docs)"
  by (cases "convertWorkHours e d") (simp add: baseSaveBusinessHour_def)

lemma baseSaveBusinessHour_success:
  assumes "\<forall>hour\<in>set (workHours d). \<not> invalid_window e (tz_name (timezone d)) hour"
  shows "baseSaveBusinessHour e newId docs d =
           (let d' = d\<lparr>workHours := map (normalized_hour e (tz_name (timezone d))) (workHours d)\<rparr> in
            if truthy (bh_id d) then (Inr (the (bh_id d)), updateOne (the (bh_id d)) d' docs)
            else (Inr (fst (insertOne newId d' docs)), snd (insertOne newId d' docs)))"
  using forEach_convertHour_success [OF assms]
  by (simp add: baseSaveBusinessHour_def convertWorkHours_def case_prod_beta Let_def)

section \<open>Validation of the windows\<close>

text \<open>
  C3. Converting the work hours of a schedule throws one of the two validation errors
  exactly when some window is open and its finish instant is before or equal to its start
  instant. A window that is not open is never refused, whatever its order.
\<close>

theorem invalid_window_order_iff:
  "(\<exists>err. fst (convertWorkHours e businessHourData) = Some err) \<longleftrightarrow>
   (\<exists>hour\<in>set (workHours businessHourData).
      open hour \<and> finish_not_after_start e (tz_name (timezone businessHourData)) hour)"
  using forEach_convertHour_error_iff
    [of e "tz_name (timezone businessHourData)" "workHours businessHourData"]
  by (simp add: convertWorkHours_eq invalid_window_def)

theorem invalid_window_order_iff_witness:
  "fst (convertWorkHours madrid (support_eu [monday ''09:00'' ''17:00'' True, monday ''17:00'' ''09:00'' True]))
     = Some Finish_time_before_start_time
   \<and> fst (convertWorkHours madrid (support_eu [monday ''09:00'' ''09:00'' True]))
     = Some Finish_time_equals_start_time
   \<and> fst (convertWorkHours madrid (support_eu [monday ''17:00'' ''09:00'' False])) = None
   \<and> (\<exists>hour\<in>set (workHours (support_eu [monday ''09:00'' ''09:00'' True])).
        open hour \<and>
        finish_not_after_start madrid
          (tz_name (timezone (support_eu [monday ''09:00'' ''09:00'' True]))) hour)"
proof -
  have equal: "fst (convertWorkHours madrid (support_eu [monday ''09:00'' ''09:00'' True]))
      = Some Finish_time_equals_start_time"
    by code_simp
  then have "\<exists>hour\<in>set (workHours (support_eu [monday ''09:00'' ''09:00'' True])).
      open hour \<and>
      finish_not_after_start madrid
        (tz_name (timezone (support_eu [monday ''09:00'' ''09:00'' True]))) hour"
    using invalid_window_order_iff [of madrid "support_eu [monday ''09:00'' ''09:00'' True]"]
    by blast
  moreover have "fst (convertWorkHours madrid
      (support_eu [monday ''09:00'' ''17:00'' True, monday ''17:00'' ''09:00'' True]))
      = Some Finish_time_before_start_time"
    by code_simp
  moreover have "fst (convertWorkHours madrid (support_eu [monday ''17:00'' ''09:00'' False])) = None"
    by code_simp
  ultimately show ?thesis
    using equal by blast
qed

text \<open>
  C4. When a window of the draft is refused, \<open>baseSaveBusinessHour\<close> ends with the
  validation error and the collection of schedules is what it was: neither the update
  nor the insert is reached.
\<close>

theorem save_writes_nothing_when_a_window_is_invalid:
  assumes "\<exists>hour\<in>set (workHours businessHourData).
             open hour \<and> finish_not_after_start e (tz_name (timezone businessHourData)) hour"
  shows "\<exists>err. baseSaveBusinessHour e newId docs businessHourData = (Inl err, docs)"
proof -
  from assms have "\<exists>hour\<in>set (workHours businessHourData).
      invalid_window e (tz_name (timezone businessHourData)) hour"
    by (simp add: invalid_window_def)
  then obtain err where "fst (convertWorkHours e businessHourData) = Some err"
    using forEach_convertHour_error_iff
      [of e "tz_name (timezone businessHourData)" "workHours businessHourData"]
    by (auto simp: convertWorkHours_eq)
  then show ?thesis
    using baseSaveBusinessHour_error by blast
qed

theorem save_writes_nothing_when_a_window_is_invalid_witness:
  "(\<exists>hour\<in>set (workHours (support_eu [monday ''09:00'' ''17:00'' True, monday ''17:00'' ''09:00'' True])).
      open hour \<and> finish_not_after_start madrid
        (tz_name (timezone (support_eu [monday ''09:00'' ''17:00'' True, monday ''17:00'' ''09:00'' True]))) hour)
   \<and> (\<exists>err. baseSaveBusinessHour madrid ''id1'' [support_eu []]
         (support_eu [monday ''09:00'' ''17:00'' True, monday ''17:00'' ''09:00'' True])
         = (Inl err, [support_eu []]))"
proof -
  have h: "\<exists>hour\<in>set (workHours (support_eu [monday ''09:00'' ''17:00'' True, monday ''17:00'' ''09:00'' True])).
      open hour \<and> finish_not_after_start madrid
        (tz_name (timezone (support_eu [monday ''09:00'' ''17:00'' True, monday ''17:00'' ''09:00'' True]))) hour"
    by code_simp
  show ?thesis
    using h save_writes_nothing_when_a_window_is_invalid [OF h, of "''id1''" "[support_eu []]"]
    by blast
qed

text \<open>For contrast, a draft whose only window is in order is normalized and inserted.\<close>

lemma valid_draft_is_inserted:
  "baseSaveBusinessHour madrid ''id1'' [] (support_eu [monday ''09:00'' ''17:00'' True]) =
     (Inr ''id1'',
      [(support_eu [normalized_hour madrid ''Europe/Madrid'' (monday ''09:00'' ''17:00'' True)])
         \<lparr>bh_id := Some ''id1''\<rparr>])"
proof -
  have "\<not> invalid_window madrid ''Europe/Madrid'' (monday ''09:00'' ''17:00'' True)"
    by code_simp
  then have "\<forall>hour\<in>set (workHours (support_eu [monday ''09:00'' ''17:00'' True])).
      \<not> invalid_window madrid (tz_name (timezone (support_eu [monday ''09:00'' ''17:00'' True]))) hour"
    by (simp add: support_eu_def)
  from baseSaveBusinessHour_success [OF this, of "''id1''" "[]"] show ?thesis
    by (simp add: support_eu_def insertOne_def)
qed



section \<open>The three representations of a window\<close>

lemma convertHour_Inr_normalized:
  "convertHour e z hour = Inr hour' \<Longrightarrow> hour' = normalized_hour e z hour"
  by (auto simp: convertHour_def split: if_splits)

lemma utc_instant_of_format:
  "utc_instant_of \<lparr>dayOfWeek = format_dddd u, time = format_HHmm u\<rparr> = Some (u mod 10080)"
  using parse_format_dddd_HHmm [of u] by (simp add: utc_instant_of_def)

lemma server_format:
  "formatDayOfTheWeekFromServerTimezoneAndUtcHour e (Some u) p =
     format (Some (u mod 10080 - serverZoneOffset e (u mod 10080) + utcOffset e
                   + serverZoneOffsetAt e
                       (u mod 10080 - serverZoneOffset e (u mod 10080) + utcOffset e))) p"
  by (simp only: formatDayOfTheWeekFromServerTimezoneAndUtcHour_def parse_format_dddd_HHmm
      moment_local_def add_offset_hours_def format_local_def option.map)

lemma composite_Some:
  "composite e t (Some u) =
     Composite t
       \<lparr>dayOfWeek = format (Some u) DDDD, time = format (Some u) HHmm\<rparr>
       \<lparr>dayOfWeek = format_dddd
          (u mod 10080 - serverZoneOffset e (u mod 10080) + utcOffset e
           + serverZoneOffsetAt e (u mod 10080 - serverZoneOffset e (u mod 10080) + utcOffset e)),
        time = format_HHmm
          (u mod 10080 - serverZoneOffset e (u mod 10080) + utcOffset e
           + serverZoneOffsetAt e (u mod 10080 - serverZoneOffset e (u mod 10080) + utcOffset e))\<rparr>"
  by (simp add: composite_def server_format)

lemma cron_of_composite:
  assumes "t = u mod 10080 - serverZoneOffset e (u mod 10080) + utcOffset e"
  shows "cron (composite e x (Some u)) =
           \<lparr>dayOfWeek = format_dddd (t + serverZoneOffsetAt e t),
            time = format_HHmm (t + serverZoneOffsetAt e t)\<rparr>"
    and "serverZoneOffsetAt e t = serverZoneOffset e (u mod 10080) \<Longrightarrow>
         cron (composite e x (Some u)) =
           \<lparr>dayOfWeek = format_dddd (u mod 10080 + utcOffset e),
            time = format_HHmm (u mod 10080 + utcOffset e)\<rparr>"
  by (simp_all add: assms composite_Some)

lemma utc_of_composite:
  "utc_instant_of (utc (composite e x (Some u))) = Some (u mod 10080)"
  by (simp add: composite_Some utc_instant_of_format)

lemma monday_is_valid: "\<not> invalid_window madrid ''Europe/Madrid'' (monday ''09:00'' ''17:00'' True)"
  by code_simp

lemma monday_startUtc: "startUtc madrid ''Europe/Madrid'' (monday ''09:00'' ''17:00'' True) = Some 1920"
  by code_simp

lemma monday_finishUtc: "finishUtc madrid ''Europe/Madrid'' (monday ''09:00'' ''17:00'' True) = Some 2400"
  by code_simp

text \<open>
  C5, as amended. The cron field of a normalized window is the weekday and time of its UTC
  fields, read as a civil time of the server's zone, moved on the time line by the
  server's current UTC offset (a number, not a zone) and printed in the server's zone as a
  weekday name and a time \<^verbatim>\<open>HH:mm\<close>. It is the UTC weekday and time plus that offset
  whenever the server's zone has the same offset at the time that is read and at the time
  that is printed. For Europe/Madrid one hour east of UTC, Monday 09:00 to 17:00 and a
  server in UTC, the cron fields are Monday 08:00 and Monday 16:00.
\<close>

theorem trigger_key_is_utc_time_moved_by_server_offset:
  assumes "convertHour e z hour = Inr hour'"
    and "startUtc e z hour = Some u"
    and "finishUtc e z hour = Some v"
  shows "(\<exists>s t. utc_instant_of (utc (start hour')) = Some s
            \<and> t = s - serverZoneOffset e s + utcOffset e
            \<and> cron (start hour') =
                \<lparr>dayOfWeek = format_dddd (t + serverZoneOffsetAt e t),
                 time = format_HHmm (t + serverZoneOffsetAt e t)\<rparr>
            \<and> (serverZoneOffsetAt e t = serverZoneOffset e s \<longrightarrow>
                cron (start hour') =
                  \<lparr>dayOfWeek = format_dddd (s + utcOffset e), time = format_HHmm (s + utcOffset e)\<rparr>))
       \<and> (\<exists>f t. utc_instant_of (utc (finish hour')) = Some f
            \<and> t = f - serverZoneOffset e f + utcOffset e
            \<and> cron (finish hour') =
                \<lparr>dayOfWeek = format_dddd (t + serverZoneOffsetAt e t),
                 time = format_HHmm (t + serverZoneOffsetAt e t)\<rparr>
            \<and> (serverZoneOffsetAt e t = serverZoneOffset e f \<longrightarrow>
                cron (finish hour') =
                  \<lparr>dayOfWeek = format_dddd (f + utcOffset e), time = format_HHmm (f + utcOffset e)\<rparr>))
       \<and> utcOffset madrid = 0
       \<and> cron (start (normalized_hour madrid ''Europe/Madrid'' (monday ''09:00'' ''17:00'' True)))
            = \<lparr>dayOfWeek = ''Monday'', time = ''08:00''\<rparr>
       \<and> cron (finish (normalized_hour madrid ''Europe/Madrid'' (monday ''09:00'' ''17:00'' True)))
            = \<lparr>dayOfWeek = ''Monday'', time = ''16:00''\<rparr>"
proof -
  from assms(1) have h: "hour' = normalized_hour e z hour"
    by (rule convertHour_Inr_normalized)
  have s: "start hour' = composite e (start hour) (Some u)"
    and f: "finish hour' = composite e (finish hour) (Some v)"
    using assms(2,3) by (simp_all add: h normalized_hour_def)
  have "\<exists>s t. utc_instant_of (utc (start hour')) = Some s
      \<and> t = s - serverZoneOffset e s + utcOffset e
      \<and> cron (start hour') =
          \<lparr>dayOfWeek = format_dddd (t + serverZoneOffsetAt e t),
           time = format_HHmm (t + serverZoneOffsetAt e t)\<rparr>
      \<and> (serverZoneOffsetAt e t = serverZoneOffset e s \<longrightarrow>
          cron (start hour') =
            \<lparr>dayOfWeek = format_dddd (s + utcOffset e), time = format_HHmm (s + utcOffset e)\<rparr>)"
    unfolding s
    using utc_of_composite [where e = e and x = "start hour" and u = u]
      cron_of_composite [OF refl, where e = e and x = "start hour" and u = u]
    by blast
  moreover have "\<exists>f t. utc_instant_of (utc (finish hour')) = Some f
      \<and> t = f - serverZoneOffset e f + utcOffset e
      \<and> cron (finish hour') =
          \<lparr>dayOfWeek = format_dddd (t + serverZoneOffsetAt e t),
           time = format_HHmm (t + serverZoneOffsetAt e t)\<rparr>
      \<and> (serverZoneOffsetAt e t = serverZoneOffset e f \<longrightarrow>
          cron (finish hour') =
            \<lparr>dayOfWeek = format_dddd (f + utcOffset e), time = format_HHmm (f + utcOffset e)\<rparr>)"
    unfolding f
    using utc_of_composite [where e = e and x = "finish hour" and u = v]
      cron_of_composite [OF refl, where e = e and x = "finish hour" and u = v]
    by blast
  moreover have "utcOffset madrid = 0"
    by (simp add: utcOffset_def madrid_def)
  moreover have "cron (start (normalized_hour madrid ''Europe/Madrid'' (monday ''09:00'' ''17:00'' True)))
            = \<lparr>dayOfWeek = ''Monday'', time = ''08:00''\<rparr>"
    by code_simp
  moreover have "cron (finish (normalized_hour madrid ''Europe/Madrid'' (monday ''09:00'' ''17:00'' True)))
            = \<lparr>dayOfWeek = ''Monday'', time = ''16:00''\<rparr>"
    by code_simp
  ultimately show ?thesis by blast
qed

theorem trigger_key_is_utc_time_moved_by_server_offset_witness:
  "convertHour madrid ''Europe/Madrid'' (monday ''09:00'' ''17:00'' True)
     = Inr (normalized_hour madrid ''Europe/Madrid'' (monday ''09:00'' ''17:00'' True))
   \<and> startUtc madrid ''Europe/Madrid'' (monday ''09:00'' ''17:00'' True) = Some 1920
   \<and> finishUtc madrid ''Europe/Madrid'' (monday ''09:00'' ''17:00'' True) = Some 2400
   \<and> (\<exists>s. utc_instant_of (utc (start (normalized_hour madrid ''Europe/Madrid'' (monday ''09:00'' ''17:00'' True))))
            = Some s
        \<and> serverZoneOffsetAt madrid (s - serverZoneOffset madrid s + utcOffset madrid)
            = serverZoneOffset madrid s
        \<and> cron (start (normalized_hour madrid ''Europe/Madrid'' (monday ''09:00'' ''17:00'' True))) =
            \<lparr>dayOfWeek = format_dddd (s + utcOffset madrid), time = format_HHmm (s + utcOffset madrid)\<rparr>)"
proof -
  have a: "convertHour madrid ''Europe/Madrid'' (monday ''09:00'' ''17:00'' True)
      = Inr (normalized_hour madrid ''Europe/Madrid'' (monday ''09:00'' ''17:00'' True))"
    using monday_is_valid by (rule convertHour_Inr)
  have same: "serverZoneOffsetAt madrid t = serverZoneOffset madrid s" for s t
    by (simp add: madrid_def)
  from trigger_key_is_utc_time_moved_by_server_offset [OF a monday_startUtc monday_finishUtc]
  obtain s where
    "utc_instant_of (utc (start (normalized_hour madrid ''Europe/Madrid'' (monday ''09:00'' ''17:00'' True))))
       = Some s"
    and "cron (start (normalized_hour madrid ''Europe/Madrid'' (monday ''09:00'' ''17:00'' True))) =
       \<lparr>dayOfWeek = format_dddd (s + utcOffset madrid), time = format_HHmm (s + utcOffset madrid)\<rparr>"
    using same by blast
  then show ?thesis
    using a monday_startUtc monday_finishUtc same by blast
qed

text \<open>
  The claim as it was stated fails in a week in which the server's zone changes its
  offset. On the server in New York the window of Sunday 03:00 UTC is read as Sunday 03:00
  of New York, which is 08:00 UTC; five hours earlier it is 03:00 UTC, before the change,
  when New York is four hours west: the cron field is Saturday 23:00, and the UTC time
  plus the offset is Saturday 22:00.
\<close>

theorem trigger_key_in_a_week_of_offset_change_counterexample:
  "convertHour new_york ''UTC'' sunday_0300 = Inr (normalized_hour new_york ''UTC'' sunday_0300)
   \<and> utc (start (normalized_hour new_york ''UTC'' sunday_0300))
        = \<lparr>dayOfWeek = ''Sunday'', time = ''03:00''\<rparr>
   \<and> utc_instant_of (utc (start (normalized_hour new_york ''UTC'' sunday_0300))) = Some 180
   \<and> utcOffset new_york = - 300
   \<and> format_dddd (180 + utcOffset new_york) = ''Saturday''
   \<and> format_HHmm (180 + utcOffset new_york) = ''22:00''
   \<and> cron (start (normalized_hour new_york ''UTC'' sunday_0300))
        = \<lparr>dayOfWeek = ''Saturday'', time = ''23:00''\<rparr>"
proof -
  have "\<not> invalid_window new_york ''UTC'' sunday_0300"
    by code_simp
  then have "convertHour new_york ''UTC'' sunday_0300 = Inr (normalized_hour new_york ''UTC'' sunday_0300)"
    by (rule convertHour_Inr)
  moreover have "utc (start (normalized_hour new_york ''UTC'' sunday_0300))
      = \<lparr>dayOfWeek = ''Sunday'', time = ''03:00''\<rparr>"
    by code_simp
  moreover have "utc_instant_of (utc (start (normalized_hour new_york ''UTC'' sunday_0300))) = Some 180"
    by code_simp
  moreover have "utcOffset new_york = - 300"
    by (simp add: utcOffset_def new_york_def)
  moreover have "format_dddd (180 + utcOffset new_york) = ''Saturday''"
    by code_simp
  moreover have "format_HHmm (180 + utcOffset new_york) = ''22:00''"
    by code_simp
  moreover have "cron (start (normalized_hour new_york ''UTC'' sunday_0300))
      = \<lparr>dayOfWeek = ''Saturday'', time = ''23:00''\<rparr>"
    by code_simp
  ultimately show ?thesis by blast
qed

text \<open>
  C6, as amended. For a window that is accepted and whose local times are read, the stored
  UTC weekday and time, read back as an instant of the current week, give the instant of
  the authored local time modulo one week (10080 minutes); the two instants are the same
  exactly when the UTC instant lies in the current week.
\<close>

theorem utc_fields_denote_the_instant_modulo_a_week:
  assumes "convertHour e z hour = Inr hour'"
    and "startUtc e z hour = Some u"
    and "finishUtc e z hour = Some v"
  shows "utc_instant_of (utc (start hour')) = Some (u mod 10080)
       \<and> utc_instant_of (utc (finish hour')) = Some (v mod 10080)
       \<and> (utc_instant_of (utc (start hour')) = startUtc e z hour \<longleftrightarrow> 0 \<le> u \<and> u < 10080)
       \<and> (utc_instant_of (utc (finish hour')) = finishUtc e z hour \<longleftrightarrow> 0 \<le> v \<and> v < 10080)"
proof -
  from assms(1) have h: "hour' = normalized_hour e z hour"
    by (rule convertHour_Inr_normalized)
  have s: "utc_instant_of (utc (start hour')) = Some (u mod 10080)"
    using assms(2) by (simp add: h normalized_hour_def composite_Some utc_instant_of_format)
  have f: "utc_instant_of (utc (finish hour')) = Some (v mod 10080)"
    using assms(3) by (simp add: h normalized_hour_def composite_Some utc_instant_of_format)
  have "u mod 10080 = u \<longleftrightarrow> 0 \<le> u \<and> u < 10080" for u :: int
    by (metis mod_pos_pos_trivial pos_mod_sign pos_mod_bound zero_less_numeral)
  then show ?thesis
    using s f assms(2,3) by simp
qed

theorem utc_fields_denote_the_instant_modulo_a_week_witness:
  "convertHour madrid ''Europe/Madrid'' (monday ''09:00'' ''17:00'' True)
     = Inr (normalized_hour madrid ''Europe/Madrid'' (monday ''09:00'' ''17:00'' True))
   \<and> startUtc madrid ''Europe/Madrid'' (monday ''09:00'' ''17:00'' True) = Some 1920
   \<and> finishUtc madrid ''Europe/Madrid'' (monday ''09:00'' ''17:00'' True) = Some 2400
   \<and> utc_instant_of (utc (start (normalized_hour madrid ''Europe/Madrid'' (monday ''09:00'' ''17:00'' True))))
       = Some 1920
   \<and> utc_instant_of (utc (finish (normalized_hour madrid ''Europe/Madrid'' (monday ''09:00'' ''17:00'' True))))
       = Some 2400"
proof -
  have a: "convertHour madrid ''Europe/Madrid'' (monday ''09:00'' ''17:00'' True)
      = Inr (normalized_hour madrid ''Europe/Madrid'' (monday ''09:00'' ''17:00'' True))"
    using monday_is_valid by (rule convertHour_Inr)
  show ?thesis
    using a monday_startUtc monday_finishUtc
      utc_fields_denote_the_instant_modulo_a_week [OF a monday_startUtc monday_finishUtc]
    by simp
qed

text \<open>
  The claim as it was stated fails for Sunday 00:30 in Madrid: the instant is Saturday
  23:30 UTC of the week before (minute -30), and the stored fields Saturday 23:30 read back
  as Saturday of the current week (minute 10050), seven days later.
\<close>

theorem utc_fields_lose_the_week_counterexample:
  "convertHour madrid ''Europe/Madrid'' sunday_0030
     = Inr (normalized_hour madrid ''Europe/Madrid'' sunday_0030)
   \<and> startUtc madrid ''Europe/Madrid'' sunday_0030 = Some (- 30)
   \<and> utc_instant_of (utc (start (normalized_hour madrid ''Europe/Madrid'' sunday_0030))) = Some 10050
   \<and> utc_instant_of (utc (start (normalized_hour madrid ''Europe/Madrid'' sunday_0030)))
        \<noteq> startUtc madrid ''Europe/Madrid'' sunday_0030"
proof -
  have "\<not> invalid_window madrid ''Europe/Madrid'' sunday_0030"
    by code_simp
  then have "convertHour madrid ''Europe/Madrid'' sunday_0030 =
      Inr (normalized_hour madrid ''Europe/Madrid'' sunday_0030)"
    by (rule convertHour_Inr)
  moreover have "startUtc madrid ''Europe/Madrid'' sunday_0030 = Some (- 30)"
    by code_simp
  moreover have "utc_instant_of (utc (start (normalized_hour madrid ''Europe/Madrid'' sunday_0030)))
      = Some 10050"
    by code_simp
  ultimately show ?thesis by simp
qed

section \<open>The two formats of an offset\<close>

lemma digit_not_colon: "d < 10 \<Longrightarrow> digits ! d \<noteq> CHR '':''"
  by (drule below_10) (auto simp: digits_def)

lemma colon_not_in_string_of_nat: "CHR '':'' \<notin> set (string_of_nat n)"
proof (induction n rule: string_of_nat.induct)
  case (1 n)
  show ?case
  proof (cases "n < 10")
    case True
    then show ?thesis
      using digit_not_colon [of n] by (subst string_of_nat.simps) simp
  next
    case False
    moreover have "digits ! (n mod 10) \<noteq> CHR '':''"
      by (rule digit_not_colon) simp
    ultimately show ?thesis
      using "1.IH" by (subst string_of_nat.simps) simp
  qed
qed

lemma colon_not_in_String_hours: "CHR '':'' \<notin> set (String_hours q)"
  using colon_not_in_string_of_nat [of "nat \<bar>q\<bar> div 4"]
  by (simp add: String_hours_def)

lemma colon_in_format_Z: "CHR '':'' \<in> set (format_Z m)"
  by (simp add: format_Z_def)

lemma format_Z_neq_String_hours: "format_Z m \<noteq> String_hours q"
  using colon_in_format_Z [of m] colon_not_in_String_hours [of q] by metis

text \<open>
  C9. \<open>getUTCFromTimezone\<close> answers in two formats. With a timezone name it prints the
  offset of the zone as sign, hours, colon and minutes (\<^verbatim>\<open>+02:00\<close>); without one it
  prints the server's offset in hours as a bare decimal number (\<^verbatim>\<open>2\<close>, \<^verbatim>\<open>5.5\<close>).
  The two results are never the same string, whatever the two offsets.
\<close>

theorem getUTCFromTimezone_two_formats:
  assumes "z \<noteq> []"
  shows "getUTCFromTimezone e (Some z) = format_Z (zoneOffsetNow e z)
       \<and> getUTCFromTimezone e None = String_hours (serverOffsetQuarters e)
       \<and> getUTCFromTimezone e (Some z) \<noteq> getUTCFromTimezone e' None
       \<and> format_Z 120 = ''+02:00''
       \<and> String_hours 8 = ''2''
       \<and> String_hours 22 = ''5.5''"
proof -
  have "format_Z 120 = ''+02:00''" by code_simp
  moreover have "String_hours 8 = ''2''" by code_simp
  moreover have "String_hours 22 = ''5.5''" by code_simp
  ultimately show ?thesis
    using assms format_Z_neq_String_hours by (simp add: getUTCFromTimezone_def)
qed

theorem getUTCFromTimezone_two_formats_witness:
  "''Europe/Madrid'' \<noteq> []
   \<and> getUTCFromTimezone summer (Some ''Europe/Madrid'') = ''+02:00''
   \<and> getUTCFromTimezone summer None = ''2''
   \<and> getUTCFromTimezone summer (Some ''Europe/Madrid'') \<noteq> getUTCFromTimezone summer None"
proof -
  have h: "''Europe/Madrid'' \<noteq> []" by simp
  have "zoneOffsetNow summer ''Europe/Madrid'' = 120" and "serverOffsetQuarters summer = 8"
    by (simp_all add: summer_def)
  then show ?thesis
    using getUTCFromTimezone_two_formats [OF h, of summer summer] by simp
qed

section \<open>The agents\<close>

lemma onNewAgentCreated_branches:
  assumes "findOneDefaultBusinessHour docs = Some defaultBusinessHour"
    and "bh_id defaultBusinessHour = Some i"
    and "us agentId = Some a"
  shows "openNow i \<Longrightarrow>
           onNewAgentCreated openNow docs us agentId =
             us(agentId \<mapsto> a\<lparr>businessHours := List.insert i (businessHours a)\<rparr>)"
    and "\<not> openNow i \<Longrightarrow>
           onNewAgentCreated openNow docs us agentId =
             us(agentId \<mapsto> a\<lparr>statusLivechat := Some NOT_AVAILABLE\<rparr>)"
  using assms
  by (auto simp: onNewAgentCreated_def filterBusinessHoursThatMustBeOpened_def
      setLivechatStatus_def addBusinessHourByAgentIds_def)


text \<open>
  C2, as amended. \<open>allowAgentChangeServiceStatus\<close> is true exactly when the agent is at
  present within business hours, that is inside an open window of at least one of its
  assigned schedules; it is false for an agent outside all of them.
\<close>

theorem allowAgentChangeServiceStatus_iff_within_business_hours:
  "allowAgentChangeServiceStatus openNow us agentId \<longleftrightarrow>
     (\<exists>a. us agentId = Some a \<and> (\<exists>b\<in>set (businessHours a). openNow b))"
  by (simp add: allowAgentChangeServiceStatus_def isAgentWithinBusinessHours_def
      list_ex_iff split: option.splits)

theorem allowAgentChangeServiceStatus_iff_within_business_hours_witness:
  "allowAgentChangeServiceStatus always_open (one_agent managed_agent) ''agent''
   \<and> \<not> allowAgentChangeServiceStatus never_open (one_agent managed_agent) ''agent''
   \<and> \<not> allowAgentChangeServiceStatus always_open (one_agent new_agent) ''agent''"
  using allowAgentChangeServiceStatus_iff_within_business_hours
      [of always_open "one_agent managed_agent" "''agent''"]
    allowAgentChangeServiceStatus_iff_within_business_hours
      [of never_open "one_agent managed_agent" "''agent''"]
    allowAgentChangeServiceStatus_iff_within_business_hours
      [of always_open "one_agent new_agent" "''agent''"]
  by (simp add: one_agent_def new_agent_def managed_agent_def always_open_def never_open_def)

text \<open>
  The claim as it was stated fails: the agent below is assigned to a schedule that is open
  at present, and the answer is true.
\<close>

theorem allowed_inside_an_open_window_counterexample:
  "allowAgentChangeServiceStatus always_open (one_agent managed_agent) ''agent''
   \<and> one_agent managed_agent ''agent'' = Some managed_agent
   \<and> ''default'' \<in> set (businessHours managed_agent)
   \<and> always_open ''default''"
  by (simp add: allowAgentChangeServiceStatus_def isAgentWithinBusinessHours_def
      one_agent_def managed_agent_def always_open_def)

text \<open>
  C7. \<open>changeAgentActiveStatus\<close> writes nothing for an agent whose \<open>statusDefault\<close> is
  offline, whatever the status asked for, so that opening a schedule cannot make that
  agent available; when the marker \<open>livechatStatusSystemModified\<close> is set and
  \<open>statusDefault\<close> is not offline, the status is written and the marker is set.
\<close>

theorem changeAgentActiveStatus_guard:
  assumes "us agentId = Some a"
  shows "(statusDefault a = Some ''offline'' \<longrightarrow> changeAgentActiveStatus us agentId status = us)
       \<and> (livechatStatusSystemModified a \<and> statusDefault a \<noteq> Some ''offline'' \<longrightarrow>
            changeAgentActiveStatus us agentId status =
              us(agentId \<mapsto> a\<lparr>statusLivechat := Some status, livechatStatusSystemModified := True\<rparr>))"
  using assms by (simp add: changeAgentActiveStatus_def setLivechatStatusIf_def)

theorem changeAgentActiveStatus_guard_witness:
  "one_agent offline_agent ''agent'' = Some offline_agent
   \<and> statusDefault offline_agent = Some ''offline''
   \<and> changeAgentActiveStatus (one_agent offline_agent) ''agent'' AVAILABLE = one_agent offline_agent
   \<and> one_agent managed_agent ''agent'' = Some managed_agent
   \<and> livechatStatusSystemModified managed_agent
   \<and> statusDefault managed_agent \<noteq> Some ''offline''
   \<and> changeAgentActiveStatus (one_agent managed_agent) ''agent'' AVAILABLE =
       one_agent (managed_agent\<lparr>statusLivechat := Some AVAILABLE\<rparr>)"
proof -
  have a: "one_agent offline_agent ''agent'' = Some offline_agent"
    and b: "one_agent managed_agent ''agent'' = Some managed_agent"
    by (simp_all add: one_agent_def)
  have c: "statusDefault offline_agent = Some ''offline''"
    by (simp add: offline_agent_def)
  have d: "livechatStatusSystemModified managed_agent" "statusDefault managed_agent \<noteq> Some ''offline''"
    by (simp_all add: managed_agent_def)
  have e: "(one_agent managed_agent)(''agent'' \<mapsto>
      managed_agent\<lparr>statusLivechat := Some AVAILABLE, livechatStatusSystemModified := True\<rparr>)
      = one_agent (managed_agent\<lparr>statusLivechat := Some AVAILABLE\<rparr>)"
    by (simp add: one_agent_def managed_agent_def)
  show ?thesis
    using a b c d e
      changeAgentActiveStatus_guard
        [where us = "one_agent offline_agent" and agentId = "''agent''" and a = offline_agent
           and status = AVAILABLE, OF a]
      changeAgentActiveStatus_guard
        [where us = "one_agent managed_agent" and agentId = "''agent''" and a = managed_agent
           and status = AVAILABLE, OF b]
    by simp
qed

text \<open>
  C8. \<open>onDisableBusinessHours\<close> removes from every agent the business hours that the
  engine attached to it and changes nothing else: the agents are the same, and the status,
  the manual status and the marker \<open>livechatStatusSystemModified\<close> of each are untouched.
\<close>

theorem onDisableBusinessHours_frame:
  assumes "us k = Some a"
  shows "dom (onDisableBusinessHours us) = dom us
       \<and> (\<exists>a'. onDisableBusinessHours us k = Some a'
            \<and> businessHours a' = []
            \<and> statusLivechat a' = statusLivechat a
            \<and> statusDefault a' = statusDefault a
            \<and> livechatStatusSystemModified a' = livechatStatusSystemModified a)"
  using assms
  by (auto simp: onDisableBusinessHours_def removeBusinessHoursFromAllUsers_def dom_def)

theorem onDisableBusinessHours_frame_witness:
  "one_agent managed_agent ''agent'' = Some managed_agent
   \<and> onDisableBusinessHours (one_agent managed_agent) ''agent''
       = Some (managed_agent\<lparr>businessHours := []\<rparr>)
   \<and> statusLivechat (managed_agent\<lparr>businessHours := []\<rparr>) = Some NOT_AVAILABLE"
proof -
  have a: "one_agent managed_agent ''agent'' = Some managed_agent"
    by (simp add: one_agent_def)
  have "onDisableBusinessHours (one_agent managed_agent) ''agent''
      = Some (managed_agent\<lparr>businessHours := []\<rparr>)"
    using onDisableBusinessHours_frame
      [where us = "one_agent managed_agent" and k = "''agent''" and a = managed_agent, OF a]
    by (auto simp: managed_agent_def)
  then show ?thesis
    using a by (simp add: managed_agent_def)
qed

end
